theory Spec2Isabelle
  imports Complex_Main "HOL-Library.Word"
begin

section \<open>The extract-amounts route of the bill extraction service\<close>

text \<open>
  The repository is an Express application with one working route,
  \<^verbatim>\<open>POST /extract-amounts\<close> (the handler in \<^verbatim>\<open>routes/extract.js\<close>, lines 86 to 223 of
  \<^verbatim>\<open>src/swagger.js\<close>). The handler is an asynchronous function with effects: it reads and
  writes files, and it calls four libraries (crypto, sharp, tesseract.js and the Google
  generative AI client) and the built-in JSON object.

  The model is a pure function \<open>extract_amounts\<close> from the collaborators, the file store and
  the uploaded file to the response sent, the file store afterwards and the list of effects
  performed, in order. The libraries are not code of the repository: they are the fields
  of the record \<open>env\<close>, one function per library call, and every theorem holds for whatever
  these functions are. A call that can throw returns an \<open>option\<close> or a sum, so each
  \<^verbatim>\<open>try\<close>/\<^verbatim>\<open>catch\<close> of the handler is a case distinction of the model. What the
  handler writes to the console is not part of the model.
\<close>

subsection \<open>Values\<close>

text \<open>
  A Buffer is a list of bytes. A JavaScript string is a list of UTF-16 code units, which is
  what \<^verbatim>\<open>replace\<close> and \<^verbatim>\<open>trim\<close> work on. Paths, model identifiers and the fixed
  texts of the handler are ASCII and written as HOL strings; \<open>js\<close> turns an ASCII string
  into its code units.
\<close>

type_synonym bytes = "8 word list"

type_synonym jsstring = "16 word list"

definition js :: "string \<Rightarrow> jsstring" where
  "js s = map of_char s"

text \<open>
  The values \<^verbatim>\<open>JSON.parse\<close> produces. An object keeps its members in order. A number
  carries the value of the double; no function of the handler computes with numbers.
\<close>

datatype json =
    JNull
  | JBool bool
  | JNum rat
  | JStr jsstring
  | JArr "json list"
  | JObj "(jsstring \<times> json) list"

text \<open>
  A response is the status given to \<^verbatim>\<open>res.status\<close> and the body given to
  \<^verbatim>\<open>send\<close> (a text) or to \<^verbatim>\<open>json\<close> (a value).
\<close>

datatype body = Send string | Json json

datatype response = Response int body

text \<open>
  What the handler reads of a value thrown by the client library: \<^verbatim>\<open>llmErr?.status\<close>
  and \<^verbatim>\<open>llmErr?.statusText\<close>, each \<open>None\<close> when the thrown value has no such
  property (or is itself null or undefined).
\<close>

record llm_error =
  status :: "int option"
  statusText :: "jsstring option"

text \<open>The effects of the handler, as they appear in the list of effects of a run.\<close>

datatype event =
    FsRead string       \<comment> \<open>\<^verbatim>\<open>fs.readFile(path, 'utf-8')\<close>\<close>
  | FsWrite string      \<comment> \<open>\<^verbatim>\<open>fs.writeFile(path, data)\<close>\<close>
  | Sharp               \<comment> \<open>\<^verbatim>\<open>sharp(buffer).grayscale().threshold(128).toBuffer()\<close>\<close>
  | Recognize           \<comment> \<open>the Tesseract worker: create, recognize, terminate\<close>
  | ModelInit string    \<comment> \<open>\<^verbatim>\<open>getGenerativeModel\<close> in the loop of lines 124 to 131\<close>
  | LlmAttempt string   \<comment> \<open>the \<^verbatim>\<open>try\<close> block of the loop of lines 171 to 195\<close>

subsection \<open>The collaborators and the file store\<close>

text \<open>
  \<open>GEMINI_MODEL\<close> is \<^verbatim>\<open>process.env.GEMINI_MODEL\<close>. \<open>sha256_hex\<close> is
  \<^verbatim>\<open>crypto.createHash('sha256').update(b).digest('hex')\<close>. \<open>sharp_threshold\<close> and
  \<open>tesseract_recognize\<close> are \<open>None\<close> when the library throws. \<open>getGenerativeModel\<close> and
  \<open>generateContent\<close> return \<open>Inl\<close> of the thrown value; \<open>generateContent name prompt\<close> stands
  for \<^verbatim>\<open>m.generateContent(prompt)\<close> followed by \<^verbatim>\<open>result.response.text()\<close> on the model
  obtained for \<open>name\<close>. \<open>JSON_parse\<close> is \<open>None\<close> when \<^verbatim>\<open>JSON.parse\<close> throws;
  \<open>JSON_stringify v\<close> is \<^verbatim>\<open>JSON.stringify(v, null, 2)\<close>. \<open>utf8_encode\<close> and \<open>utf8_decode\<close>
  are the conversions \<^verbatim>\<open>writeFile\<close> applies to a string and \<^verbatim>\<open>readFile\<close> with
  \<^verbatim>\<open>'utf-8'\<close> applies to the bytes read. \<open>writeFile_ok path\<close> tells whether a write to
  \<open>path\<close> succeeds (it does not, for one, when the directory \<^verbatim>\<open>uploads\<close> is missing).
\<close>

record env =
  GEMINI_MODEL :: "string option"
  sha256_hex :: "bytes \<Rightarrow> string"
  sharp_threshold :: "bytes \<Rightarrow> bytes option"
  tesseract_recognize :: "bytes \<Rightarrow> jsstring option"
  getGenerativeModel :: "string \<Rightarrow> llm_error + unit"
  generateContent :: "string \<Rightarrow> jsstring \<Rightarrow> llm_error + jsstring"
  JSON_parse :: "jsstring \<Rightarrow> json option"
  JSON_stringify :: "json \<Rightarrow> jsstring"
  utf8_encode :: "jsstring \<Rightarrow> bytes"
  utf8_decode :: "bytes \<Rightarrow> jsstring"
  writeFile_ok :: "string \<Rightarrow> bool"

text \<open>
  The files under \<^verbatim>\<open>uploads/\<close>: a path that cannot be read (no such file, or any other
  error of \<^verbatim>\<open>readFile\<close>) has no content.
\<close>

type_synonym store = "string \<rightharpoonup> bytes"

definition readFile :: "env \<Rightarrow> store \<Rightarrow> string \<Rightarrow> jsstring option" where
  "readFile env st path = map_option (utf8_decode env) (st path)"

definition writeFile :: "env \<Rightarrow> store \<Rightarrow> string \<Rightarrow> bytes \<Rightarrow> store option" where
  "writeFile env st path content =
     (if writeFile_ok env path then Some (st(path \<mapsto> content)) else None)"

subsection \<open>The candidate list and the two loops over it\<close>

definition defaults :: "string list" where
  "defaults =
     [''gemini-1.5-flash-8b'',
      ''gemini-1.5-flash-8b-latest'',
      ''gemini-1.5-pro'',
      ''gemini-1.5-pro-latest'']"

text \<open>
  Line 120: \<^verbatim>\<open>envModel ? [envModel, ...defaults] : defaults\<close>. An unset variable and the
  empty string are both falsy.
\<close>

definition modelCandidates :: "env \<Rightarrow> string list" where
  "modelCandidates env =
     (case GEMINI_MODEL env of
        None \<Rightarrow> defaults
      | Some envModel \<Rightarrow> if envModel = [] then defaults else envModel # defaults)"

text \<open>
  Lines 124 to 131: the first candidate for which \<^verbatim>\<open>getGenerativeModel\<close> does not throw.
\<close>

fun init_model :: "env \<Rightarrow> string list \<Rightarrow> string option \<times> event list" where
  "init_model env [] = (None, [])"
| "init_model env (name # rest) =
     (case getGenerativeModel env name of
        Inr m \<Rightarrow> (Some name, [ModelInit name])
      | Inl e \<Rightarrow>
          (case init_model env rest of
             (model, evs) \<Rightarrow> (model, ModelInit name # evs)))"

text \<open>
  Lines 180 and 181: \<^verbatim>\<open>llmErr?.status || 502\<close> and
  \<^verbatim>\<open>llmErr?.statusText || 'LLM error'\<close>. The number 0 and the empty string are falsy.
\<close>

definition effective_status :: "llm_error \<Rightarrow> int" where
  "effective_status llmErr =
     (case status llmErr of
        None \<Rightarrow> 502
      | Some s \<Rightarrow> if s = 0 then 502 else s)"

definition effective_statusText :: "llm_error \<Rightarrow> jsstring" where
  "effective_statusText llmErr =
     (case statusText llmErr of
        None \<Rightarrow> js ''LLM error''
      | Some t \<Rightarrow> if t = [] then js ''LLM error'' else t)"

text \<open>Lines 188 to 193: the response of a failure that is not a 404.\<close>

definition llm_call_failed :: "llm_error \<Rightarrow> response" where
  "llm_call_failed llmErr =
     Response (if effective_status llmErr = 429 then 429 else 502)
       (Json (JObj
          [(js ''error'', JStr (js ''LLM call failed'')),
           (js ''status'', JNum (of_int (effective_status llmErr))),
           (js ''statusText'', JStr (effective_statusText llmErr)),
           (js ''hint'',
              JStr (if effective_status llmErr = 429
                    then js ''Rate limit exceeded. Please retry after some time.''
                    else js ''Check API key and model name or permissions in AI Studio.''))]))"

text \<open>Lines 173 to 175: the calls inside the \<^verbatim>\<open>try\<close> block, for one candidate.\<close>

definition try_generate :: "env \<Rightarrow> jsstring \<Rightarrow> string \<Rightarrow> llm_error + jsstring" where
  "try_generate env prompt name =
     (case getGenerativeModel env name of
        Inl llmErr \<Rightarrow> Inl llmErr
      | Inr m \<Rightarrow> generateContent env name prompt)"

text \<open>
  The three ways the loop of lines 171 to 195 ends: the \<^verbatim>\<open>return\<close> of line 188, with
  the response sent; the \<^verbatim>\<open>break\<close> of line 178, with \<^verbatim>\<open>llmResponse\<close> and
  \<^verbatim>\<open>selectedModelName\<close>; or the end of the list, \<^verbatim>\<open>llmResponse\<close> still undefined.
  The value \<^verbatim>\<open>selectedModelName\<close> has before the loop (line 169) is never read.
\<close>

datatype loop_exit =
    Returned response
  | Broke jsstring string
  | Exhausted

fun generate_with_fallback ::
  "env \<Rightarrow> jsstring \<Rightarrow> string list \<Rightarrow> loop_exit \<times> event list" where
  "generate_with_fallback env prompt [] = (Exhausted, [])"
| "generate_with_fallback env prompt (name # rest) =
     (case try_generate env prompt name of
        Inr text \<Rightarrow> (Broke text name, [LlmAttempt name])
      | Inl llmErr \<Rightarrow>
          if effective_status llmErr = 404
          then (case generate_with_fallback env prompt rest of
                  (exit, evs) \<Rightarrow> (exit, LlmAttempt name # evs))
          else (Returned (llm_call_failed llmErr), [LlmAttempt name]))"

text \<open>The candidates for which the \<^verbatim>\<open>try\<close> block ran, in the order it ran.\<close>

fun attempts :: "event list \<Rightarrow> string list" where
  "attempts [] = []"
| "attempts (LlmAttempt name # evs) = name # attempts evs"
| "attempts (e # evs) = attempts evs"

subsection \<open>The prompt and the cleaning of the reply\<close>

definition nl :: jsstring where
  "nl = [0x0A]"

text \<open>
  Lines 138 to 166: the template literal, with the recognized text in its place. The three
  code units after the dollar sign on the sixth line are the ones the source file holds there.
\<close>

definition prompt :: "jsstring \<Rightarrow> jsstring" where
  "prompt ocrText =
     js ''You are an expert financial data extraction AI specializing in medical documents.'' @ nl @
     js ''Your task is to extract financial amounts from the following text, which may contain OCR errors.'' @ nl @
     nl @
     js ''Instructions:'' @ nl @
     js ''1. Correct any obvious OCR errors in numbers (e.g., 'l' should be '1', 'O' should be '0').'' @ nl @
     js ''2. Identify the currency (look for symbols like $, '' @ [0xE2, 0x201A, 0xB9] @
       js '', INR, USD, EUR, etc.). Default to \"INR\" if unclear.'' @ nl @
     js ''3. Extract amounts for: \"total_bill\", \"paid\", \"due\". Look for keywords like Total, Subtotal, Amount Due, Paid, Balance, etc.'' @ nl @
     js ''4. For each amount found, include the exact source text from the document.'' @ nl @
     js ''5. If you cannot find a value for a specific type, do not include it in the amounts array.'' @ nl @
     js ''6. Your response MUST be a single, valid JSON object in this exact format:'' @ nl @
     nl @
     js ''{'' @ nl @
     js ''  \"currency\": \"[detected currency code]\",'' @ nl @
     js ''  \"amounts\": ['' @ nl @
     js ''    {\"type\":\"total_bill\",\"value\":[number],\"source\":\"text: '[exact text from document]'\"},'' @ nl @
     js ''    {\"type\":\"paid\",\"value\":[number],\"source\":\"text: '[exact text from document]'\"},'' @ nl @
     js ''    {\"type\":\"due\",\"value\":[number],\"source\":\"text: '[exact text from document]'\"}'' @ nl @
     js ''  ],'' @ nl @
     js ''  \"status\":\"ok\"'' @ nl @
     js ''}'' @ nl @
     nl @
     js ''Do not include markdown formatting, explanations, or any text outside the JSON.'' @ nl @
     nl @
     js ''Text to analyze:'' @ nl @
     js ''---'' @ nl @
     ocrText @ nl @
     js ''---'' @ nl @
     nl @
     js ''JSON Output:''"

text \<open>
  \<^verbatim>\<open>s.replace(/pat/g, '')\<close> for a pattern that is a fixed text: the matches are found
  from left to right, each search starting where the last match ended, and removed.
\<close>

function remove_all :: "jsstring \<Rightarrow> jsstring \<Rightarrow> jsstring" where
  "remove_all pat [] = []"
| "remove_all pat (c # cs) =
     (if pat \<noteq> [] \<and> take (length pat) (c # cs) = pat
      then remove_all pat (drop (length pat) (c # cs))
      else c # remove_all pat cs)"
  by pat_completeness auto
termination
  by (relation "measure (\<lambda>(pat, s). length s)") auto

text \<open>
  The code units \<^verbatim>\<open>trim\<close> removes: the white space and the line terminators of
  ECMAScript (tab, line feed, vertical tab, form feed, carriage return, space, no-break
  space, the space separators of Unicode, line and paragraph separator, byte order mark).
\<close>

definition is_js_whitespace :: "16 word \<Rightarrow> bool" where
  "is_js_whitespace c \<longleftrightarrow>
     c \<in> set [0x0009, 0x000A, 0x000B, 0x000C, 0x000D, 0x0020, 0x00A0, 0x1680,
               0x2028, 0x2029, 0x202F, 0x205F, 0x3000, 0xFEFF]
     \<or> (0x2000 \<le> c \<and> c \<le> 0x200A)"

definition trim :: "jsstring \<Rightarrow> jsstring" where
  "trim s = rev (dropWhile is_js_whitespace (rev (dropWhile is_js_whitespace s)))"

text \<open>Line 203.\<close>

definition clean_response :: "jsstring \<Rightarrow> jsstring" where
  "clean_response llmResponse =
     trim (remove_all (js ''```'') (remove_all (js ''```json'') llmResponse))"

subsection \<open>The handler\<close>

definition no_file_uploaded :: response where
  "no_file_uploaded = Response 400 (Send ''No file uploaded.'')"

definition failed_to_process :: response where
  "failed_to_process = Response 500 (Send ''Failed to process image.'')"

definition llm_init_failed :: response where
  "llm_init_failed =
     Response 502 (Json (JObj
       [(js ''error'',
         JStr (js ''LLM initialization failed. Please verify model access in Google AI Studio and try again.''))]))"

definition no_accessible_model :: response where
  "no_accessible_model =
     Response 404 (Json (JObj
       [(js ''error'',
         JStr (js ''No accessible Gemini model found for your API key/region. Set GEMINI_MODEL in .env to a model you can access (e.g., gemini-1.5-pro, gemini-1.5-flash-8b) and restart.''))]))"

definition invalid_format :: response where
  "invalid_format = Response 500 (Send ''Error: The AI returned an invalid format.'')"

definition imagePath :: "env \<Rightarrow> bytes \<Rightarrow> string" where
  "imagePath env buffer = ''uploads/'' @ sha256_hex env buffer @ ''.png''"

definition jsonPath :: "env \<Rightarrow> bytes \<Rightarrow> string" where
  "jsonPath env buffer = ''uploads/'' @ sha256_hex env buffer @ ''.json''"

text \<open>
  Lines 97 to 101: the cached result, if the file can be read and its text parses. Any
  exception of the \<^verbatim>\<open>try\<close> block leads to the \<^verbatim>\<open>catch\<close> block, where the image is
  processed.
\<close>

definition cached_result :: "env \<Rightarrow> store \<Rightarrow> string \<Rightarrow> json option" where
  "cached_result env st path =
     (case readFile env st path of
        None \<Rightarrow> None
      | Some cachedJson \<Rightarrow> JSON_parse env cachedJson)"

text \<open>
  Lines 213 to 217. An exception of either \<^verbatim>\<open>writeFile\<close> is caught at line 219.
\<close>

definition save_and_respond ::
  "env \<Rightarrow> store \<Rightarrow> bytes \<Rightarrow> json \<Rightarrow> response \<times> store \<times> event list" where
  "save_and_respond env st buffer extractedData =
     (case writeFile env st (imagePath env buffer) buffer of
        None \<Rightarrow> (failed_to_process, st, [FsWrite (imagePath env buffer)])
      | Some st1 \<Rightarrow>
          (case writeFile env st1 (jsonPath env buffer)
                  (utf8_encode env (JSON_stringify env extractedData)) of
             None \<Rightarrow>
               (failed_to_process, st1,
                [FsWrite (imagePath env buffer), FsWrite (jsonPath env buffer)])
           | Some st2 \<Rightarrow>
               (Response 200 (Json extractedData), st2,
                [FsWrite (imagePath env buffer), FsWrite (jsonPath env buffer)])))"

text \<open>Lines 202 to 217.\<close>

definition parse_and_save ::
  "env \<Rightarrow> store \<Rightarrow> bytes \<Rightarrow> jsstring \<Rightarrow> response \<times> store \<times> event list" where
  "parse_and_save env st buffer llmResponse =
     (case JSON_parse env (clean_response llmResponse) of
        None \<Rightarrow> (invalid_format, st, [])
      | Some extractedData \<Rightarrow> save_and_respond env st buffer extractedData)"

text \<open>
  Lines 168 to 217. At line 196 both undefined and the empty text are falsy.
\<close>

definition generate_and_save ::
  "env \<Rightarrow> store \<Rightarrow> bytes \<Rightarrow> jsstring \<Rightarrow> response \<times> store \<times> event list" where
  "generate_and_save env st buffer ocrText =
     (case generate_with_fallback env (prompt ocrText) (modelCandidates env) of
        (Returned r, evs) \<Rightarrow> (r, st, evs)
      | (Exhausted, evs) \<Rightarrow> (no_accessible_model, st, evs)
      | (Broke llmResponse selectedModelName, evs) \<Rightarrow>
          if llmResponse = [] then (no_accessible_model, st, evs)
          else (case parse_and_save env st buffer llmResponse of
                  (r, st', evs') \<Rightarrow> (r, st', evs @ evs')))"

text \<open>
  Lines 103 to 217, the \<^verbatim>\<open>catch\<close> block of the cache lookup. An exception of sharp or
  of the Tesseract worker is caught at line 219.
\<close>

definition process_new_image ::
  "env \<Rightarrow> store \<Rightarrow> bytes \<Rightarrow> response \<times> store \<times> event list" where
  "process_new_image env st buffer =
     (case sharp_threshold env buffer of
        None \<Rightarrow> (failed_to_process, st, [Sharp])
      | Some processedImageBuffer \<Rightarrow>
          (case tesseract_recognize env processedImageBuffer of
             None \<Rightarrow> (failed_to_process, st, [Sharp, Recognize])
           | Some ocrText \<Rightarrow>
               (case init_model env (modelCandidates env) of
                  (None, evs) \<Rightarrow> (llm_init_failed, st, [Sharp, Recognize] @ evs)
                | (Some model, evs) \<Rightarrow>
                    (case generate_and_save env st buffer ocrText of
                       (r, st', evs') \<Rightarrow> (r, st', [Sharp, Recognize] @ evs @ evs')))))"

text \<open>
  Lines 86 to 223. The argument is \<^verbatim>\<open>req.file\<close>: \<open>None\<close> when the request has no file
  in the field \<^verbatim>\<open>billImage\<close>, and \<open>Some\<close> of \<^verbatim>\<open>req.file.buffer\<close> otherwise.
\<close>

definition extract_amounts ::
  "env \<Rightarrow> store \<Rightarrow> bytes option \<Rightarrow> response \<times> store \<times> event list" where
  "extract_amounts env st file =
     (case file of
        None \<Rightarrow> (no_file_uploaded, st, [])
      | Some buffer \<Rightarrow>
          (case cached_result env st (jsonPath env buffer) of
             Some cached \<Rightarrow> (Response 200 (Json cached), st, [FsRead (jsonPath env buffer)])
           | None \<Rightarrow>
               (case process_new_image env st buffer of
                  (r, st', evs) \<Rightarrow> (r, st', FsRead (jsonPath env buffer) # evs))))"

text \<open>The three components of a run, and two calls in a row on the same file.\<close>

definition response_of :: "response \<times> store \<times> event list \<Rightarrow> response" where
  "response_of run = fst run"

definition store_of :: "response \<times> store \<times> event list \<Rightarrow> store" where
  "store_of run = fst (snd run)"

definition events_of :: "response \<times> store \<times> event list \<Rightarrow> event list" where
  "events_of run = snd (snd run)"

definition second_call ::
  "env \<Rightarrow> store \<Rightarrow> bytes option \<Rightarrow> response \<times> store \<times> event list" where
  "second_call env st file =
     extract_amounts env (store_of (extract_amounts env st file)) file"

text \<open>
  A candidate whose \<^verbatim>\<open>try\<close> block throws a value that line 184 takes for a 404.
\<close>

definition not_found :: "env \<Rightarrow> jsstring \<Rightarrow> string \<Rightarrow> bool" where
  "not_found env p name \<longleftrightarrow>
     (case try_generate env p name of
        Inl llmErr \<Rightarrow> effective_status llmErr = 404
      | Inr reply \<Rightarrow> False)"

subsection \<open>The structured result of the specification\<close>

text \<open>
  The specification's validator, written from its section 4.3 and not from the code, to
  compare the handler with. The member the specification calls \<open>kind\<close> is the member
  \<^verbatim>\<open>type\<close> of the reply (lines 152 to 154 and the schema of lines 71 to 73).
\<close>

fun member_of :: "json \<Rightarrow> jsstring \<Rightarrow> json option" where
  "member_of (JObj members) key = map_of members key"
| "member_of v key = None"

definition recognized_kinds :: "jsstring list" where
  "recognized_kinds = [js ''total_bill'', js ''paid'', js ''due'']"

definition spec_recognized_kind :: "json \<Rightarrow> bool" where
  "spec_recognized_kind entry \<longleftrightarrow>
     (case member_of entry (js ''type'') of
        Some (JStr k) \<Rightarrow> k \<in> set recognized_kinds
      | _ \<Rightarrow> False)"

definition spec_amount_entry :: "json \<Rightarrow> bool" where
  "spec_amount_entry entry \<longleftrightarrow>
     spec_recognized_kind entry
     \<and> (case member_of entry (js ''value'') of Some (JNum x) \<Rightarrow> True | _ \<Rightarrow> False)
     \<and> (case member_of entry (js ''source'') of Some (JStr s) \<Rightarrow> s \<noteq> [] | _ \<Rightarrow> False)"

definition spec_structured_result :: "json \<Rightarrow> bool" where
  "spec_structured_result v \<longleftrightarrow>
     (case member_of v (js ''currency'') of Some (JStr c) \<Rightarrow> True | _ \<Rightarrow> False)
     \<and> (case member_of v (js ''amounts'') of
          Some (JArr entries) \<Rightarrow> list_all spec_amount_entry entries
        | _ \<Rightarrow> False)
     \<and> member_of v (js ''status'') \<noteq> None"

definition has_unrecognized_kind :: "json \<Rightarrow> bool" where
  "has_unrecognized_kind v \<longleftrightarrow>
     (case member_of v (js ''amounts'') of
        Some (JArr entries) \<Rightarrow> list_ex (\<lambda>entry. \<not> spec_recognized_kind entry) entries
      | _ \<Rightarrow> False)"

subsection \<open>The body of a 200 response in the docstring of the handler\<close>

text \<open>
  Lines 56 to 80, the schema the docstring of the handler gives for the body of a 200
  response: an object whose member \<^verbatim>\<open>currency\<close> is a string, whose member
  \<^verbatim>\<open>amounts\<close> is an array of objects with \<^verbatim>\<open>type\<close> one of the three texts of
  line 73, \<^verbatim>\<open>value\<close> a number and \<^verbatim>\<open>source\<close> a string, and whose member
  \<^verbatim>\<open>status\<close> is a string. The schema lists no required member, so a member that is
  absent is allowed and a member that is present has to match.
\<close>

definition is_object :: "json \<Rightarrow> bool" where
  "is_object v = (case v of JObj members \<Rightarrow> True | _ \<Rightarrow> False)"

definition is_string :: "json \<Rightarrow> bool" where
  "is_string v = (case v of JStr s \<Rightarrow> True | _ \<Rightarrow> False)"

definition is_number :: "json \<Rightarrow> bool" where
  "is_number v = (case v of JNum x \<Rightarrow> True | _ \<Rightarrow> False)"

definition member_matches :: "(json \<Rightarrow> bool) \<Rightarrow> json \<Rightarrow> jsstring \<Rightarrow> bool" where
  "member_matches schema v key =
     (case member_of v key of None \<Rightarrow> True | Some m \<Rightarrow> schema m)"

definition type_enum :: "jsstring list" where
  "type_enum = [js ''total_bill'', js ''paid'', js ''due'']"

definition documented_type :: "json \<Rightarrow> bool" where
  "documented_type v = (case v of JStr k \<Rightarrow> k \<in> set type_enum | _ \<Rightarrow> False)"

definition documented_amount :: "json \<Rightarrow> bool" where
  "documented_amount item \<longleftrightarrow>
     is_object item
     \<and> member_matches documented_type item (js ''type'')
     \<and> member_matches is_number item (js ''value'')
     \<and> member_matches is_string item (js ''source'')"

definition documented_amounts :: "json \<Rightarrow> bool" where
  "documented_amounts v = (case v of JArr items \<Rightarrow> list_all documented_amount items | _ \<Rightarrow> False)"

definition documented_200_body :: "json \<Rightarrow> bool" where
  "documented_200_body v \<longleftrightarrow>
     is_object v
     \<and> member_matches is_string v (js ''currency'')
     \<and> member_matches documented_amounts v (js ''amounts'')
     \<and> member_matches is_string v (js ''status'')"

subsection \<open>Concrete collaborators\<close>

text \<open>
  Collaborators for runs on concrete inputs. The digests are the SHA-256 digests of the
  two uploads used; the two replies are parsed, and the two results serialised, as
  \<^verbatim>\<open>JSON.parse\<close> and \<^verbatim>\<open>JSON.stringify\<close> do; sharp rejects an empty buffer.
\<close>

definition demo_image :: bytes where
  "demo_image = [0x89, 0x50, 0x4E, 0x47]"

definition demo_sha256 :: "bytes \<Rightarrow> string" where
  "demo_sha256 b =
     (if b = [] then ''e3b0c44298fc1c149afbf4c8996fb92427ae41e4649b934ca495991b7852b855''
      else if b = demo_image
      then ''0f4636c78f65d3639ece5a064b5ae753e3408614a14fb18ab4d7540d2c248543''
      else ''0000000000000000000000000000000000000000000000000000000000000000'')"

definition demo_json_text :: jsstring where
  "demo_json_text =
     js ''{\"currency\":\"USD\",\"amounts\":[{\"type\":\"total_bill\",\"value\":100,\"source\":\"text: 'Total: $100'\"},{\"type\":\"paid\",\"value\":60,\"source\":\"text: 'Paid: $60'\"}],\"status\":\"ok\"}''"

definition demo_reply :: jsstring where
  "demo_reply = js ''```json'' @ nl @ demo_json_text @ nl @ js ''```''"

definition demo_result :: json where
  "demo_result = JObj
     [(js ''currency'', JStr (js ''USD'')),
      (js ''amounts'', JArr
        [JObj [(js ''type'', JStr (js ''total_bill'')),
               (js ''value'', JNum 100),
               (js ''source'', JStr (js ''text: 'Total: $100'' @ [0x27]))],
         JObj [(js ''type'', JStr (js ''paid'')),
               (js ''value'', JNum 60),
               (js ''source'', JStr (js ''text: 'Paid: $60'' @ [0x27]))]]),
      (js ''status'', JStr (js ''ok''))]"

definition demo_pretty :: jsstring where
  "demo_pretty =
     js ''{'' @ nl @
     js ''  \"currency\": \"USD\",'' @ nl @
     js ''  \"amounts\": ['' @ nl @
     js ''    {'' @ nl @
     js ''      \"type\": \"total_bill\",'' @ nl @
     js ''      \"value\": 100,'' @ nl @
     js ''      \"source\": \"text: 'Total: $100'\"'' @ nl @
     js ''    },'' @ nl @
     js ''    {'' @ nl @
     js ''      \"type\": \"paid\",'' @ nl @
     js ''      \"value\": 60,'' @ nl @
     js ''      \"source\": \"text: 'Paid: $60'\"'' @ nl @
     js ''    }'' @ nl @
     js ''  ],'' @ nl @
     js ''  \"status\": \"ok\"'' @ nl @
     js ''}''"

definition tax_json_text :: jsstring where
  "tax_json_text =
     js ''{\"currency\":\"INR\",\"amounts\":[{\"type\":\"tax\",\"value\":18,\"source\":\"text: 'GST 18'\"}],\"status\":\"ok\"}''"

definition tax_result :: json where
  "tax_result = JObj
     [(js ''currency'', JStr (js ''INR'')),
      (js ''amounts'', JArr
        [JObj [(js ''type'', JStr (js ''tax'')),
               (js ''value'', JNum 18),
               (js ''source'', JStr (js ''text: 'GST 18'' @ [0x27]))]]),
      (js ''status'', JStr (js ''ok''))]"

definition tax_pretty :: jsstring where
  "tax_pretty =
     js ''{'' @ nl @
     js ''  \"currency\": \"INR\",'' @ nl @
     js ''  \"amounts\": ['' @ nl @
     js ''    {'' @ nl @
     js ''      \"type\": \"tax\",'' @ nl @
     js ''      \"value\": 18,'' @ nl @
     js ''      \"source\": \"text: 'GST 18'\"'' @ nl @
     js ''    }'' @ nl @
     js ''  ],'' @ nl @
     js ''  \"status\": \"ok\"'' @ nl @
     js ''}''"

definition demo_ocrText :: jsstring where
  "demo_ocrText = js ''Total: $100 Paid: $60''"

definition demo_parse :: "jsstring \<Rightarrow> json option" where
  "demo_parse s =
     (if s = demo_json_text \<or> s = demo_pretty then Some demo_result
      else if s = tax_json_text \<or> s = tax_pretty then Some tax_result
      else None)"

definition demo_stringify :: "json \<Rightarrow> jsstring" where
  "demo_stringify v =
     (if v = demo_result then demo_pretty
      else if v = tax_result then tax_pretty
      else js ''null'')"

definition http_error :: "int \<Rightarrow> string \<Rightarrow> llm_error" where
  "http_error code reason = \<lparr> status = Some code, statusText = Some (js reason) \<rparr>"

text \<open>
  The collaborators of a run in which the external call for \<open>name\<close> gives \<open>llm name\<close>
  and a write to \<open>path\<close> succeeds when \<open>disk path\<close>.
\<close>

definition demo_env :: "(string \<Rightarrow> llm_error + jsstring) \<Rightarrow> (string \<Rightarrow> bool) \<Rightarrow> env" where
  "demo_env llm disk =
     \<lparr> GEMINI_MODEL = None,
       sha256_hex = demo_sha256,
       sharp_threshold = (\<lambda>b. if b = [] then None else Some b),
       tesseract_recognize = (\<lambda>b. Some demo_ocrText),
       getGenerativeModel = (\<lambda>name. Inr ()),
       generateContent = (\<lambda>name p. llm name),
       JSON_parse = demo_parse,
       JSON_stringify = demo_stringify,
       utf8_encode = map ucast,
       utf8_decode = map ucast,
       writeFile_ok = disk \<rparr>"

definition llm_ok :: "string \<Rightarrow> llm_error + jsstring" where
  "llm_ok name = Inr demo_reply"

definition llm_tax :: "string \<Rightarrow> llm_error + jsstring" where
  "llm_tax name = Inr tax_json_text"

definition llm_second_ok :: "string \<Rightarrow> llm_error + jsstring" where
  "llm_second_ok name =
     (if name = ''gemini-1.5-flash-8b'' then Inl (http_error 404 ''Not Found'')
      else Inr demo_reply)"

definition llm_second_rate_limited :: "string \<Rightarrow> llm_error + jsstring" where
  "llm_second_rate_limited name =
     (if name = ''gemini-1.5-flash-8b'' then Inl (http_error 404 ''Not Found'')
      else if name = ''gemini-1.5-flash-8b-latest''
      then Inl (http_error 429 ''Too Many Requests'')
      else Inr demo_reply)"

definition llm_second_no_status :: "string \<Rightarrow> llm_error + jsstring" where
  "llm_second_no_status name =
     (if name = ''gemini-1.5-flash-8b'' then Inl (http_error 404 ''Not Found'')
      else if name = ''gemini-1.5-flash-8b-latest''
      then Inl \<lparr> status = None, statusText = None \<rparr>
      else Inr demo_reply)"

definition llm_all_not_found :: "string \<Rightarrow> llm_error + jsstring" where
  "llm_all_not_found name = Inl (http_error 404 ''Not Found'')"

definition disk_ok :: "string \<Rightarrow> bool" where
  "disk_ok path = True"

definition disk_failing :: "string \<Rightarrow> bool" where
  "disk_failing path = False"

definition disk_image_only :: "string \<Rightarrow> bool" where
  "disk_image_only path \<longleftrightarrow>
     path = ''uploads/0f4636c78f65d3639ece5a064b5ae753e3408614a14fb18ab4d7540d2c248543.png''"

text \<open>
  The collaborators of a run in which \<^verbatim>\<open>GEMINI_MODEL\<close> names one of the default
  identifiers, as the text of line 198 suggests, and every external call fails with a 404.
\<close>

definition override_env :: env where
  "override_env =
     (demo_env llm_all_not_found disk_ok)\<lparr> GEMINI_MODEL := Some ''gemini-1.5-pro'' \<rparr>"

section \<open>Properties\<close>

subsection \<open>The fallback loop\<close>

lemma fallback_skips_not_found:
  "list_all (not_found env p) pre \<Longrightarrow>
   generate_with_fallback env p (pre @ rest) =
     (fst (generate_with_fallback env p rest),
      map LlmAttempt pre @ snd (generate_with_fallback env p rest))"
proof (induction pre)
  case Nil
  show ?case by simp
next
  case (Cons name pre)
  from Cons.prems have nf: "not_found env p name" and rest: "list_all (not_found env p) pre"
    by simp_all
  from nf obtain e where e: "try_generate env p name = Inl e" "effective_status e = 404"
    by (auto simp: not_found_def split: sum.splits)
  show ?case
    using e Cons.IH [OF rest] by (simp add: case_prod_beta)
qed

lemma fallback_events_prefix:
  "\<exists>n\<le>length cs. snd (generate_with_fallback env p cs) = map LlmAttempt (take n cs)"
proof (induction cs)
  case Nil
  show ?case by simp
next
  case (Cons name cs)
  then obtain n where n: "n \<le> length cs"
      "snd (generate_with_fallback env p cs) = map LlmAttempt (take n cs)"
    by blast
  show ?case
  proof (cases "try_generate env p name")
    case (Inr reply)
    then have "snd (generate_with_fallback env p (name # cs)) = map LlmAttempt (take 1 (name # cs))"
      by simp
    moreover have "1 \<le> length (name # cs)"
      by simp
    ultimately show ?thesis
      by blast
  next
    case (Inl e)
    show ?thesis
    proof (cases "effective_status e = 404")
      case True
      with Inl n have "snd (generate_with_fallback env p (name # cs)) =
          map LlmAttempt (take (Suc n) (name # cs))"
        by (simp add: case_prod_beta)
      moreover from n(1) have "Suc n \<le> length (name # cs)"
        by simp
      ultimately show ?thesis
        by blast
    next
      case False
      with Inl have "snd (generate_with_fallback env p (name # cs)) = map LlmAttempt (take 1 (name # cs))"
        by simp
      moreover have "1 \<le> length (name # cs)"
        by simp
      ultimately show ?thesis
        by blast
    qed
  qed
qed

text \<open>
  C4, as amended. The loop goes through the candidate list in order and runs the
  \<^verbatim>\<open>try\<close> block at most once for each entry of the list; an identifier that is two
  entries of the list can be attempted twice. When the candidates before \<open>c\<close> all fail with a 404 and the call for
  \<open>c\<close> succeeds, the loop ends at \<open>c\<close> with the text produced and the identifier \<open>c\<close>,
  after one attempt for each candidate up to \<open>c\<close> and none for the later ones. For any list
  \<open>cs\<close>, whatever the calls give, the attempts made are the entries of a prefix of \<open>cs\<close>,
  each once, in the order of the list; when no identifier occurs twice in \<open>cs\<close>, none is
  attempted twice.
\<close>

theorem fallback_returns_first_success:
  assumes "list_all (not_found env p) pre"
    and "try_generate env p c = Inr text"
  shows "generate_with_fallback env p (pre @ c # post) = (Broke text c, map LlmAttempt (pre @ [c]))
       \<and> (\<exists>n\<le>length cs. snd (generate_with_fallback env p cs) = map LlmAttempt (take n cs))
       \<and> (distinct cs \<longrightarrow> distinct (snd (generate_with_fallback env p cs)))"
proof -
  obtain n where n: "snd (generate_with_fallback env p cs) = map LlmAttempt (take n cs)"
    using fallback_events_prefix [of cs env p] by blast
  have "distinct (map LlmAttempt (take n cs))" if "distinct cs"
    using that by (simp add: distinct_map inj_on_def)
  with n have "distinct cs \<longrightarrow> distinct (snd (generate_with_fallback env p cs))"
    by simp
  with assms fallback_events_prefix [of cs env p] show ?thesis
    by (simp add: fallback_skips_not_found)
qed

text \<open>
  C3. When the candidates before \<open>c\<close> all fail with a 404 and the call for \<open>c\<close> fails with
  status 429, the loop returns at once the response 429 with the rate-limit hint. The
  attempts made are one for each candidate up to \<open>c\<close>; \<open>c\<close> is attempted exactly once and no
  later candidate is attempted.
\<close>

theorem rate_limit_stops_fallback:
  assumes "list_all (not_found env p) pre"
    and "try_generate env p c = Inl llmErr"
    and "status llmErr = Some 429"
  shows "generate_with_fallback env p (pre @ c # post) =
           (Returned (Response 429 (Json (JObj
              [(js ''error'', JStr (js ''LLM call failed'')),
               (js ''status'', JNum 429),
               (js ''statusText'', JStr (effective_statusText llmErr)),
               (js ''hint'', JStr (js ''Rate limit exceeded. Please retry after some time.''))]))),
            map LlmAttempt (pre @ [c]))
       \<and> count_list (pre @ [c]) c = 1"
proof -
  have st: "effective_status llmErr = 429"
    using assms(3) by (simp add: effective_status_def)
  have "\<not> not_found env p c"
    using assms(2) st by (simp add: not_found_def)
  with assms(1) have "c \<notin> set pre"
    by (auto simp: list_all_iff)
  then have "count_list (pre @ [c]) c = 1"
    by (simp add: count_list_0_iff)
  moreover have "generate_with_fallback env p (c # post) = (Returned (llm_call_failed llmErr), [LlmAttempt c])"
    using assms(2) st by simp
  ultimately show ?thesis
    using assms(1) st by (simp add: fallback_skips_not_found llm_call_failed_def)
qed

text \<open>
  C10. When the candidates before \<open>c\<close> all fail with a 404 and the value thrown by the call
  for \<open>c\<close> has no status, the loop returns at once the response 502 whose body reports status
  502 and the hint about the API key, and no later candidate is attempted.
\<close>

theorem missing_status_is_fatal:
  assumes "list_all (not_found env p) pre"
    and "try_generate env p c = Inl llmErr"
    and "status llmErr = None"
  shows "generate_with_fallback env p (pre @ c # post) =
           (Returned (Response 502 (Json (JObj
              [(js ''error'', JStr (js ''LLM call failed'')),
               (js ''status'', JNum 502),
               (js ''statusText'', JStr (effective_statusText llmErr)),
               (js ''hint'', JStr (js ''Check API key and model name or permissions in AI Studio.''))]))),
            map LlmAttempt (pre @ [c]))"
proof -
  have st: "effective_status llmErr = 502"
    using assms(3) by (simp add: effective_status_def)
  have "generate_with_fallback env p (c # post) = (Returned (llm_call_failed llmErr), [LlmAttempt c])"
    using assms(2) st by simp
  then show ?thesis
    using assms(1) st by (simp add: fallback_skips_not_found llm_call_failed_def)
qed

subsection \<open>The effects of a run\<close>

lemma init_model_events:
  "\<exists>n\<le>length cs. snd (init_model env cs) = map ModelInit (take n cs)"
proof (induction cs)
  case Nil
  show ?case by simp
next
  case (Cons name cs)
  then obtain n where n: "n \<le> length cs" "snd (init_model env cs) = map ModelInit (take n cs)"
    by blast
  show ?case
  proof (cases "getGenerativeModel env name")
    case (Inr m)
    then have "snd (init_model env (name # cs)) = map ModelInit (take 1 (name # cs))"
      by simp
    moreover have "1 \<le> length (name # cs)"
      by simp
    ultimately show ?thesis
      by blast
  next
    case (Inl e)
    with n have "snd (init_model env (name # cs)) = map ModelInit (take (Suc n) (name # cs))"
      by (simp add: case_prod_beta)
    moreover from n(1) have "Suc n \<le> length (name # cs)"
      by simp
    ultimately show ?thesis
      by blast
  qed
qed

lemma attempts_append: "attempts (xs @ ys) = attempts xs @ attempts ys"
  by (induction xs rule: attempts.induct) simp_all

lemma attempts_LlmAttempt: "attempts (map LlmAttempt names) = names"
  by (induction names) simp_all

lemma attempts_ModelInit: "attempts (map ModelInit names) = []"
  by (induction names) simp_all

lemma loop_no_write: "FsWrite path \<notin> set (snd (generate_with_fallback env p cs))"
  using fallback_events_prefix [of cs env p] by auto

lemma loop_no_recognize: "Recognize \<notin> set (snd (generate_with_fallback env p cs))"
  using fallback_events_prefix [of cs env p] by auto

lemma init_no_write: "FsWrite path \<notin> set (snd (init_model env cs))"
  using init_model_events [of cs env] by auto

lemma init_no_recognize: "Recognize \<notin> set (snd (init_model env cs))"
  using init_model_events [of cs env] by auto

lemma loop_returned:
  "generate_with_fallback env p cs = (Returned r, evs) \<Longrightarrow> \<exists>e. r = llm_call_failed e"
  by (induction cs arbitrary: evs) (auto split: sum.splits if_splits prod.splits)

lemma llm_call_failed_status:
  "llm_call_failed e = Response code b \<Longrightarrow> code = 429 \<or> code = 502"
  by (auto simp: llm_call_failed_def split: if_splits)

lemma reaches_generate:
  assumes miss: "cached_result env st (jsonPath env buffer) = None"
    and sharp: "sharp_threshold env buffer = Some img"
    and ocr: "tesseract_recognize env img = Some ocrText"
    and init: "init_model env (modelCandidates env) = (Some model, evs1)"
  shows "extract_amounts env st (Some buffer) =
           (fst (generate_and_save env st buffer ocrText),
            fst (snd (generate_and_save env st buffer ocrText)),
            FsRead (jsonPath env buffer) # Sharp # Recognize # evs1
              @ snd (snd (generate_and_save env st buffer ocrText)))"
  using assms by (simp add: extract_amounts_def process_new_image_def case_prod_beta)

lemma reaches_parse:
  assumes miss: "cached_result env st (jsonPath env buffer) = None"
    and sharp: "sharp_threshold env buffer = Some img"
    and ocr: "tesseract_recognize env img = Some ocrText"
    and init: "init_model env (modelCandidates env) = (Some model, evs1)"
    and loop: "generate_with_fallback env (prompt ocrText) (modelCandidates env)
                 = (Broke llmResponse name, evs2)"
    and nonempty: "llmResponse \<noteq> []"
  shows "extract_amounts env st (Some buffer) =
           (fst (parse_and_save env st buffer llmResponse),
            fst (snd (parse_and_save env st buffer llmResponse)),
            FsRead (jsonPath env buffer) # Sharp # Recognize # evs1 @ evs2
              @ snd (snd (parse_and_save env st buffer llmResponse)))"
  using loop nonempty
  by (simp add: reaches_generate [OF miss sharp ocr init] generate_and_save_def case_prod_beta)

text \<open>
  C5. When the handler reaches the fallback loop and every candidate fails with a 404, the
  loop ends with the list exhausted, after one attempt for each candidate, and the handler
  answers 404 with the text that tells to set \<^verbatim>\<open>GEMINI_MODEL\<close>. This response is none of
  the responses of a failure that stops the loop.
\<close>

theorem exhausted_candidates_no_accessible_model:
  assumes miss: "cached_result env st (jsonPath env buffer) = None"
    and sharp: "sharp_threshold env buffer = Some img"
    and ocr: "tesseract_recognize env img = Some ocrText"
    and init: "init_model env (modelCandidates env) = (Some model, evs1)"
    and all_not_found: "list_all (not_found env (prompt ocrText)) (modelCandidates env)"
  shows "generate_with_fallback env (prompt ocrText) (modelCandidates env)
           = (Exhausted, map LlmAttempt (modelCandidates env))
       \<and> response_of (extract_amounts env st (Some buffer)) =
           Response 404 (Json (JObj
             [(js ''error'',
               JStr (js ''No accessible Gemini model found for your API key/region. Set GEMINI_MODEL in .env to a model you can access (e.g., gemini-1.5-pro, gemini-1.5-flash-8b) and restart.''))]))
       \<and> (\<forall>llmErr. response_of (extract_amounts env st (Some buffer)) \<noteq> llm_call_failed llmErr)"
proof -
  have loop: "generate_with_fallback env (prompt ocrText) (modelCandidates env)
      = (Exhausted, map LlmAttempt (modelCandidates env))"
    using fallback_skips_not_found [OF all_not_found, of "[]"] by simp
  have resp: "response_of (extract_amounts env st (Some buffer)) = no_accessible_model"
    using loop
    by (simp add: reaches_generate [OF miss sharp ocr init] generate_and_save_def response_of_def)
  have "no_accessible_model \<noteq> llm_call_failed llmErr" for llmErr
    by (simp add: no_accessible_model_def llm_call_failed_def)
  with loop resp show ?thesis
    by (simp add: no_accessible_model_def)
qed

subsection \<open>The cache\<close>

lemma save_and_respond_ok:
  assumes "save_and_respond env st buffer v = (Response 200 (Json result), st', evs)"
  shows "result = v \<and> st' (jsonPath env buffer) = Some (utf8_encode env (JSON_stringify env v))"
  using assms
  by (auto simp: save_and_respond_def writeFile_def failed_to_process_def split: if_splits)

lemma parse_and_save_ok:
  assumes "parse_and_save env st buffer llm = (Response 200 (Json result), st', evs)"
  shows "st' (jsonPath env buffer) = Some (utf8_encode env (JSON_stringify env result))"
  using assms save_and_respond_ok [of env st buffer _ result st' evs]
  by (auto simp: parse_and_save_def invalid_format_def split: option.splits)

lemma generate_and_save_ok:
  assumes "generate_and_save env st buffer ocrText = (Response 200 (Json result), st', evs)"
  shows "st' (jsonPath env buffer) = Some (utf8_encode env (JSON_stringify env result))"
proof (cases "generate_with_fallback env (prompt ocrText) (modelCandidates env)")
  case (Pair exit evs2)
  show ?thesis
  proof (cases exit)
    case (Returned r)
    with Pair obtain e where "r = llm_call_failed e"
      using loop_returned by blast
    with Pair Returned assms have "llm_call_failed e = Response 200 (Json result)"
      by (simp add: generate_and_save_def)
    then show ?thesis
      using llm_call_failed_status by fastforce
  next
    case Exhausted
    with Pair assms show ?thesis
      by (simp add: generate_and_save_def no_accessible_model_def)
  next
    case (Broke llmResponse name)
    with Pair assms show ?thesis
      using parse_and_save_ok [of env st buffer llmResponse result st']
      by (auto simp: generate_and_save_def no_accessible_model_def split: if_splits prod.splits)
  qed
qed

lemma process_new_image_ok:
  assumes "process_new_image env st buffer = (Response 200 (Json result), st', evs)"
  shows "st' (jsonPath env buffer) = Some (utf8_encode env (JSON_stringify env result))"
  using assms generate_and_save_ok [of env st buffer _ result st']
  by (auto simp: process_new_image_def failed_to_process_def llm_init_failed_def
           split: option.splits prod.splits)

lemma success_is_cached:
  assumes ok: "response_of (extract_amounts env st (Some buffer)) = Response 200 (Json result)"
    and roundtrip:
      "JSON_parse env (utf8_decode env (utf8_encode env (JSON_stringify env result))) = Some result"
  shows "cached_result env (store_of (extract_amounts env st (Some buffer))) (jsonPath env buffer)
           = Some result"
proof (cases "cached_result env st (jsonPath env buffer)")
  case (Some cached)
  with ok show ?thesis
    by (simp add: extract_amounts_def response_of_def store_of_def)
next
  case None
  obtain r st' evs where run: "process_new_image env st buffer = (r, st', evs)"
    by (cases "process_new_image env st buffer") auto
  with None ok have "r = Response 200 (Json result)"
    by (simp add: extract_amounts_def response_of_def)
  with run have "st' (jsonPath env buffer) = Some (utf8_encode env (JSON_stringify env result))"
    using process_new_image_ok by blast
  with None run roundtrip show ?thesis
    by (simp add: extract_amounts_def store_of_def cached_result_def readFile_def)
qed

lemma save_and_respond_events:
  "attempts (snd (snd (save_and_respond env st buffer v))) = []
   \<and> Recognize \<notin> set (snd (snd (save_and_respond env st buffer v)))"
  by (simp add: save_and_respond_def split: option.splits)

lemma parse_and_save_events:
  "attempts (snd (snd (parse_and_save env st buffer llm))) = []
   \<and> Recognize \<notin> set (snd (snd (parse_and_save env st buffer llm)))"
  using save_and_respond_events by (simp add: parse_and_save_def split: option.splits)

lemma generate_and_save_events:
  "(\<exists>n\<le>length (modelCandidates env).
      attempts (snd (snd (generate_and_save env st buffer ocrText))) = take n (modelCandidates env))
   \<and> Recognize \<notin> set (snd (snd (generate_and_save env st buffer ocrText)))"
proof -
  obtain exit evs where loop:
      "generate_with_fallback env (prompt ocrText) (modelCandidates env) = (exit, evs)"
    by (cases "generate_with_fallback env (prompt ocrText) (modelCandidates env)") auto
  obtain n where n: "n \<le> length (modelCandidates env)" "evs = map LlmAttempt (take n (modelCandidates env))"
    using fallback_events_prefix [of "modelCandidates env" env "prompt ocrText"] loop by auto
  have a: "attempts evs = take n (modelCandidates env)"
    using n(2) by (simp add: attempts_LlmAttempt)
  have r: "Recognize \<notin> set evs"
    using n(2) by auto
  have "attempts (snd (snd (generate_and_save env st buffer ocrText))) = take n (modelCandidates env)
        \<and> Recognize \<notin> set (snd (snd (generate_and_save env st buffer ocrText)))"
    using loop a r parse_and_save_events
    by (cases exit) (auto simp: generate_and_save_def attempts_append case_prod_beta)
  with n(1) show ?thesis
    by blast
qed

lemma process_new_image_events:
  "(\<exists>n\<le>length (modelCandidates env).
      attempts (snd (snd (process_new_image env st buffer))) = take n (modelCandidates env))
   \<and> count_list (snd (snd (process_new_image env st buffer))) Recognize \<le> 1"
proof -
  have zero: "\<exists>n\<le>length (modelCandidates env). [] = take n (modelCandidates env)"
    by (rule exI [where x = 0]) simp
  show ?thesis
  proof (cases "sharp_threshold env buffer")
    case None
    with zero show ?thesis
      by (simp add: process_new_image_def)
  next
    case (Some img)
    show ?thesis
    proof (cases "tesseract_recognize env img")
      case None
      with Some zero show ?thesis
        by (simp add: process_new_image_def)
    next
      case ocr: (Some ocrText)
      obtain model evs1 where init: "init_model env (modelCandidates env) = (model, evs1)"
        by (cases "init_model env (modelCandidates env)") auto
      obtain k where k: "evs1 = map ModelInit (take k (modelCandidates env))"
        using init_model_events [of "modelCandidates env" env] init by auto
      have a1: "attempts evs1 = []"
        using k by (simp add: attempts_ModelInit)
      have r1: "count_list evs1 Recognize = 0"
        using k by (auto simp: count_list_0_iff)
      show ?thesis
      proof (cases model)
        case None
        with Some ocr init a1 r1 zero show ?thesis
          by (simp add: process_new_image_def)
      next
        case m: (Some name)
        have "count_list (snd (snd (generate_and_save env st buffer ocrText))) Recognize = 0"
          using generate_and_save_events [of env st buffer ocrText]
          by (simp add: count_list_0_iff)
        with Some ocr init m a1 r1 generate_and_save_events [of env st buffer ocrText]
        show ?thesis
          by (simp add: process_new_image_def case_prod_beta attempts_append)
      qed
    qed
  qed
qed

lemma extract_amounts_events:
  "(\<exists>n\<le>length (modelCandidates env).
      attempts (events_of (extract_amounts env st file)) = take n (modelCandidates env))
   \<and> count_list (events_of (extract_amounts env st file)) Recognize \<le> 1"
proof -
  have zero: "\<exists>n\<le>length (modelCandidates env). [] = take n (modelCandidates env)"
    by (rule exI [where x = 0]) simp
  show ?thesis
  proof (cases "file")
    case None
    with zero show ?thesis
      by (simp add: extract_amounts_def events_of_def)
  next
    case (Some buffer)
    show ?thesis
    proof (cases "cached_result env st (jsonPath env buffer)")
      case hit: (Some cached)
      with Some zero show ?thesis
        by (simp add: extract_amounts_def events_of_def)
    next
      case None
      with Some process_new_image_events [of env st buffer] show ?thesis
        by (simp add: extract_amounts_def events_of_def case_prod_beta)
    qed
  qed
qed

text \<open>
  C6. When a call of the handler answers 200 with a result, and the result is read back
  from its serialisation by the JSON and UTF-8 conversions, a second call with the same
  bytes on the store the first call left answers 200 with the same result, leaves the store
  as it is, and its only effect is the read of the cached file. Over the two calls the
  Tesseract worker runs at most once and the attempts of the fallback loop are those of one
  pass over a prefix of the candidate list.
\<close>

theorem cache_idempotence:
  assumes ok: "response_of (extract_amounts env st (Some buffer)) = Response 200 (Json result)"
    and roundtrip:
      "JSON_parse env (utf8_decode env (utf8_encode env (JSON_stringify env result))) = Some result"
  shows "second_call env st (Some buffer) =
           (Response 200 (Json result), store_of (extract_amounts env st (Some buffer)),
            [FsRead (jsonPath env buffer)])
       \<and> count_list (events_of (extract_amounts env st (Some buffer))
                     @ events_of (second_call env st (Some buffer))) Recognize \<le> 1
       \<and> (\<exists>n\<le>length (modelCandidates env).
            attempts (events_of (extract_amounts env st (Some buffer))
                      @ events_of (second_call env st (Some buffer)))
              = take n (modelCandidates env))"
proof -
  have second: "second_call env st (Some buffer) =
      (Response 200 (Json result), store_of (extract_amounts env st (Some buffer)),
       [FsRead (jsonPath env buffer)])"
    using success_is_cached [OF ok roundtrip]
    by (simp add: second_call_def extract_amounts_def)
  then have ev2: "events_of (second_call env st (Some buffer)) = [FsRead (jsonPath env buffer)]"
    by (simp add: events_of_def)
  show ?thesis
    using second ev2 extract_amounts_events [of env st "Some buffer"]
    by (simp add: attempts_append)
qed

subsection \<open>Parsing and persisting the reply\<close>

text \<open>
  What lines 202 to 217 do with a non-empty reply: the handler answers 500 with the
  invalid-format text exactly when the cleaned reply fails to parse; when it parses and
  both writes succeed, the handler answers 200 with the parsed value. Nothing between
  \<^verbatim>\<open>JSON.parse\<close> and the response looks at the members of the value.
\<close>

lemma reply_rejected_iff_unparseable:
  assumes miss: "cached_result env st (jsonPath env buffer) = None"
    and sharp: "sharp_threshold env buffer = Some img"
    and ocr: "tesseract_recognize env img = Some ocrText"
    and init: "init_model env (modelCandidates env) = (Some model, evs1)"
    and loop: "generate_with_fallback env (prompt ocrText) (modelCandidates env)
                 = (Broke llmResponse name, evs2)"
    and nonempty: "llmResponse \<noteq> []"
  shows "(response_of (extract_amounts env st (Some buffer))
            = Response 500 (Send ''Error: The AI returned an invalid format.'')
          \<longleftrightarrow> JSON_parse env (clean_response llmResponse) = None)
       \<and> (\<forall>v. JSON_parse env (clean_response llmResponse) = Some v
              \<longrightarrow> writeFile_ok env (imagePath env buffer)
              \<longrightarrow> writeFile_ok env (jsonPath env buffer)
              \<longrightarrow> response_of (extract_amounts env st (Some buffer)) = Response 200 (Json v))"
  by (auto simp: reaches_parse [OF miss sharp ocr init loop nonempty] response_of_def
        parse_and_save_def save_and_respond_def writeFile_def invalid_format_def
        failed_to_process_def split: option.splits)

text \<open>
  C2, as amended. When the reply has been parsed and one of the two writes fails, the
  handler answers 500 with the failed-to-process text and not the result. The store is
  unchanged when the first write fails, and holds the raw image when only the second fails.
\<close>

theorem write_failure_fails_request:
  assumes miss: "cached_result env st (jsonPath env buffer) = None"
    and sharp: "sharp_threshold env buffer = Some img"
    and ocr: "tesseract_recognize env img = Some ocrText"
    and init: "init_model env (modelCandidates env) = (Some model, evs1)"
    and loop: "generate_with_fallback env (prompt ocrText) (modelCandidates env)
                 = (Broke llmResponse name, evs2)"
    and nonempty: "llmResponse \<noteq> []"
    and parsed: "JSON_parse env (clean_response llmResponse) = Some extractedData"
    and write_fails:
      "\<not> writeFile_ok env (imagePath env buffer) \<or> \<not> writeFile_ok env (jsonPath env buffer)"
  shows "response_of (extract_amounts env st (Some buffer))
           = Response 500 (Send ''Failed to process image.'')
       \<and> store_of (extract_amounts env st (Some buffer))
           = (if writeFile_ok env (imagePath env buffer)
              then st(imagePath env buffer \<mapsto> buffer) else st)"
  using parsed write_fails
  by (auto simp: reaches_parse [OF miss sharp ocr init loop nonempty] response_of_def store_of_def
        parse_and_save_def save_and_respond_def writeFile_def failed_to_process_def)

lemma parse_and_save_writes:
  assumes "fst (snd (parse_and_save env st buffer llm)) \<noteq> st
         \<or> (\<exists>path. FsWrite path \<in> set (snd (snd (parse_and_save env st buffer llm))))"
  shows "\<exists>v. JSON_parse env (clean_response llm) = Some v"
  using assms by (cases "JSON_parse env (clean_response llm)") (auto simp: parse_and_save_def)

lemma generate_and_save_writes:
  assumes "fst (snd (generate_and_save env st buffer ocrText)) \<noteq> st
         \<or> (\<exists>path. FsWrite path \<in> set (snd (snd (generate_and_save env st buffer ocrText))))"
  shows "\<exists>llmResponse name evs2 v.
           generate_with_fallback env (prompt ocrText) (modelCandidates env)
             = (Broke llmResponse name, evs2)
           \<and> llmResponse \<noteq> []
           \<and> JSON_parse env (clean_response llmResponse) = Some v"
proof (cases "generate_with_fallback env (prompt ocrText) (modelCandidates env)")
  case (Pair exit evs)
  have nw: "FsWrite path \<notin> set evs" for path
    using loop_no_write [of path env "prompt ocrText" "modelCandidates env"] Pair by simp
  show ?thesis
  proof (cases exit)
    case (Returned r)
    with Pair assms nw show ?thesis
      by (simp add: generate_and_save_def)
  next
    case Exhausted
    with Pair assms nw show ?thesis
      by (simp add: generate_and_save_def)
  next
    case (Broke llmResponse name)
    show ?thesis
    proof (cases "llmResponse = []")
      case True
      with Pair Broke assms nw show ?thesis
        by (simp add: generate_and_save_def)
    next
      case False
      with Pair Broke assms nw
      have "fst (snd (parse_and_save env st buffer llmResponse)) \<noteq> st
          \<or> (\<exists>path. FsWrite path \<in> set (snd (snd (parse_and_save env st buffer llmResponse))))"
        by (auto simp: generate_and_save_def case_prod_beta)
      then obtain v where "JSON_parse env (clean_response llmResponse) = Some v"
        using parse_and_save_writes by blast
      with Pair Broke False show ?thesis
        by simp
    qed
  qed
qed

text \<open>
  C9, as amended. If a run on an uploaded file changes the store or calls
  \<^verbatim>\<open>writeFile\<close>, then the lookup missed, sharp and the Tesseract worker succeeded, a model
  was initialised, the fallback loop ended at a success with a non-empty reply, and the
  cleaned reply parsed. So no write is attempted, and the store is unchanged, when the run
  fails for a recognition failure, a failure that stops the loop, the exhaustion of the
  candidates or a reply that does not parse.
\<close>

theorem writes_only_after_parse:
  assumes changed: "store_of (extract_amounts env st (Some buffer)) \<noteq> st
         \<or> (\<exists>path. FsWrite path \<in> set (events_of (extract_amounts env st (Some buffer))))"
  shows "\<exists>img ocrText model evs1 llmResponse name evs2 extractedData.
           cached_result env st (jsonPath env buffer) = None
           \<and> sharp_threshold env buffer = Some img
           \<and> tesseract_recognize env img = Some ocrText
           \<and> init_model env (modelCandidates env) = (Some model, evs1)
           \<and> generate_with_fallback env (prompt ocrText) (modelCandidates env)
               = (Broke llmResponse name, evs2)
           \<and> llmResponse \<noteq> []
           \<and> JSON_parse env (clean_response llmResponse) = Some extractedData"
proof (cases "cached_result env st (jsonPath env buffer)")
  case (Some cached)
  with changed show ?thesis
    by (simp add: extract_amounts_def store_of_def events_of_def)
next
  case miss: None
  show ?thesis
  proof (cases "sharp_threshold env buffer")
    case None
    with miss changed show ?thesis
      by (simp add: extract_amounts_def process_new_image_def store_of_def events_of_def)
  next
    case sharp: (Some img)
    show ?thesis
    proof (cases "tesseract_recognize env img")
      case None
      with miss sharp changed show ?thesis
        by (simp add: extract_amounts_def process_new_image_def store_of_def events_of_def)
    next
      case ocr: (Some ocrText)
      obtain model evs1 where init: "init_model env (modelCandidates env) = (model, evs1)"
        by (cases "init_model env (modelCandidates env)") auto
      have nw: "FsWrite path \<notin> set evs1" for path
        using init_no_write [of path env "modelCandidates env"] init by simp
      show ?thesis
      proof (cases model)
        case None
        with miss sharp ocr init nw changed show ?thesis
          by (simp add: extract_amounts_def process_new_image_def store_of_def events_of_def)
      next
        case m: (Some name)
        from changed nw
        have "fst (snd (generate_and_save env st buffer ocrText)) \<noteq> st
            \<or> (\<exists>path. FsWrite path \<in> set (snd (snd (generate_and_save env st buffer ocrText))))"
          using init m
          by (auto simp: reaches_generate [OF miss sharp ocr init [unfolded m]]
                store_of_def events_of_def)
        from generate_and_save_writes [OF this] miss sharp ocr init m show ?thesis
          by auto
      qed
    qed
  qed
qed

subsection \<open>A request without a file\<close>

lemma save_and_respond_not_400:
  "fst (save_and_respond env st buffer v) \<noteq> Response 400 b"
  by (simp add: save_and_respond_def failed_to_process_def split: option.splits)

lemma parse_and_save_not_400:
  "fst (parse_and_save env st buffer llm) \<noteq> Response 400 b"
  using save_and_respond_not_400
  by (simp add: parse_and_save_def invalid_format_def split: option.splits)

lemma generate_and_save_not_400:
  "fst (generate_and_save env st buffer ocrText) \<noteq> Response 400 b"
proof (cases "generate_with_fallback env (prompt ocrText) (modelCandidates env)")
  case (Pair exit evs)
  show ?thesis
  proof (cases exit)
    case (Returned r)
    with Pair obtain e where "r = llm_call_failed e"
      using loop_returned by blast
    with Pair Returned show ?thesis
      using llm_call_failed_status [of e 400 b] by (auto simp: generate_and_save_def)
  next
    case Exhausted
    with Pair show ?thesis
      by (simp add: generate_and_save_def no_accessible_model_def)
  next
    case (Broke llmResponse name)
    with Pair show ?thesis
      using parse_and_save_not_400 [of env st buffer llmResponse b]
      by (simp add: generate_and_save_def no_accessible_model_def case_prod_beta)
  qed
qed

lemma process_new_image_not_400:
  "fst (process_new_image env st buffer) \<noteq> Response 400 b"
  using generate_and_save_not_400
  by (simp add: process_new_image_def failed_to_process_def llm_init_failed_def case_prod_beta
        split: option.splits prod.splits)

text \<open>
  C7, as amended. When the request has no file, the handler answers 400 with the no-file
  text, the store is unchanged and no effect is performed. A request with a file is never
  answered with that response, whatever the bytes: its first effect is the read of the
  cached file.
\<close>

theorem no_file_rejected:
  "extract_amounts env st None = (Response 400 (Send ''No file uploaded.''), st, [])
   \<and> (\<forall>buffer. response_of (extract_amounts env st (Some buffer))
                  \<noteq> Response 400 (Send ''No file uploaded.''))
   \<and> (\<forall>buffer. take 1 (events_of (extract_amounts env st (Some buffer)))
                  = [FsRead (jsonPath env buffer)])"
  using process_new_image_not_400
  by (simp add: extract_amounts_def no_file_uploaded_def response_of_def events_of_def
        case_prod_beta split: option.splits)

section \<open>Runs on concrete inputs\<close>

text \<open>
  The runs below use the concrete collaborators: the upload is \<open>demo_image\<close>, the store is
  empty, the recognized text is \<open>demo_ocrText\<close>, and the behaviour of the external call and
  of the disk is chosen for each run. The first lemmas evaluate the parts the runs share.
\<close>

lemma demo_texts:
  "clean_response demo_reply = demo_json_text
   \<and> clean_response tax_json_text = tax_json_text
   \<and> map ucast (map ucast demo_pretty :: bytes) = demo_pretty
   \<and> tax_json_text \<noteq> demo_json_text
   \<and> tax_json_text \<noteq> demo_pretty
   \<and> tax_result \<noteq> demo_result"
  by code_simp

lemma demo_paths:
  "jsonPath (demo_env llm disk) demo_image
     = ''uploads/0f4636c78f65d3639ece5a064b5ae753e3408614a14fb18ab4d7540d2c248543.json''"
  "imagePath (demo_env llm disk) demo_image
     = ''uploads/0f4636c78f65d3639ece5a064b5ae753e3408614a14fb18ab4d7540d2c248543.png''"
  "jsonPath (demo_env llm disk) []
     = ''uploads/e3b0c44298fc1c149afbf4c8996fb92427ae41e4649b934ca495991b7852b855.json''"
  by (simp_all add: jsonPath_def imagePath_def demo_env_def demo_sha256_def demo_image_def)

lemma demo_reaches_loop:
  "cached_result (demo_env llm disk) Map.empty (jsonPath (demo_env llm disk) demo_image) = None"
  "sharp_threshold (demo_env llm disk) demo_image = Some demo_image"
  "tesseract_recognize (demo_env llm disk) demo_image = Some demo_ocrText"
  "init_model (demo_env llm disk) (modelCandidates (demo_env llm disk))
     = (Some ''gemini-1.5-flash-8b'', [ModelInit ''gemini-1.5-flash-8b''])"
  by (simp_all add: demo_env_def cached_result_def readFile_def demo_image_def modelCandidates_def
        defaults_def)

lemma demo_candidates: "modelCandidates (demo_env llm disk) = defaults"
  by (simp add: modelCandidates_def demo_env_def)

lemma demo_try_generate: "try_generate (demo_env llm disk) p name = llm name"
  by (simp add: try_generate_def demo_env_def)

lemma demo_first_not_found:
  "list_all (not_found (demo_env llm_second_ok disk) p) [''gemini-1.5-flash-8b'']"
  "list_all (not_found (demo_env llm_second_rate_limited disk) p) [''gemini-1.5-flash-8b'']"
  "list_all (not_found (demo_env llm_second_no_status disk) p) [''gemini-1.5-flash-8b'']"
  "list_all (not_found (demo_env llm_all_not_found disk) p) defaults"
  by (simp_all add: not_found_def demo_try_generate llm_second_ok_def llm_second_rate_limited_def
        llm_second_no_status_def llm_all_not_found_def http_error_def effective_status_def
        defaults_def)

lemma demo_loop_ok:
  "generate_with_fallback (demo_env llm_ok disk) p (modelCandidates (demo_env llm_ok disk))
     = (Broke demo_reply ''gemini-1.5-flash-8b'', [LlmAttempt ''gemini-1.5-flash-8b''])"
  "generate_with_fallback (demo_env llm_tax disk) p (modelCandidates (demo_env llm_tax disk))
     = (Broke tax_json_text ''gemini-1.5-flash-8b'', [LlmAttempt ''gemini-1.5-flash-8b''])"
  by (simp_all add: demo_candidates defaults_def demo_try_generate llm_ok_def llm_tax_def)

lemma demo_replies_nonempty: "demo_reply \<noteq> []" "tax_json_text \<noteq> []"
  by (simp_all add: demo_reply_def tax_json_text_def nl_def js_def)

lemma demo_parsed:
  "JSON_parse (demo_env llm disk) (clean_response demo_reply) = Some demo_result"
  "JSON_parse (demo_env llm disk) (clean_response tax_json_text) = Some tax_result"
  using demo_texts by (simp_all add: demo_env_def demo_parse_def)

lemma demo_run_ok:
  "extract_amounts (demo_env llm_ok disk) Map.empty (Some demo_image) =
     (fst (save_and_respond (demo_env llm_ok disk) Map.empty demo_image demo_result),
      fst (snd (save_and_respond (demo_env llm_ok disk) Map.empty demo_image demo_result)),
      [FsRead (jsonPath (demo_env llm_ok disk) demo_image), Sharp, Recognize,
       ModelInit ''gemini-1.5-flash-8b'', LlmAttempt ''gemini-1.5-flash-8b'']
      @ snd (snd (save_and_respond (demo_env llm_ok disk) Map.empty demo_image demo_result)))"
  by (simp add: reaches_parse [OF demo_reaches_loop demo_loop_ok(1) demo_replies_nonempty(1)]
        parse_and_save_def demo_parsed)

lemma demo_run_tax:
  "extract_amounts (demo_env llm_tax disk) Map.empty (Some demo_image) =
     (fst (save_and_respond (demo_env llm_tax disk) Map.empty demo_image tax_result),
      fst (snd (save_and_respond (demo_env llm_tax disk) Map.empty demo_image tax_result)),
      [FsRead (jsonPath (demo_env llm_tax disk) demo_image), Sharp, Recognize,
       ModelInit ''gemini-1.5-flash-8b'', LlmAttempt ''gemini-1.5-flash-8b'']
      @ snd (snd (save_and_respond (demo_env llm_tax disk) Map.empty demo_image tax_result)))"
  by (simp add: reaches_parse [OF demo_reaches_loop demo_loop_ok(2) demo_replies_nonempty(2)]
        parse_and_save_def demo_parsed)

lemma demo_disk:
  "writeFile_ok (demo_env llm disk_ok) path"
  "\<not> writeFile_ok (demo_env llm disk_failing) path"
  "writeFile_ok (demo_env llm disk_image_only) (imagePath (demo_env llm disk_image_only) demo_image)"
  "\<not> writeFile_ok (demo_env llm disk_image_only) (jsonPath (demo_env llm disk_image_only) demo_image)"
  by (simp_all add: demo_paths)
     (simp_all add: demo_env_def disk_ok_def disk_failing_def disk_image_only_def)

lemma demo_result_documented:
  "spec_structured_result demo_result \<and> documented_200_body demo_result"
  by code_simp

subsection \<open>Instances of the theorems\<close>

text \<open>
  The fallback loop (C4, C3, C10): the first default candidate fails with a 404 and the
  second one succeeds, is rate limited, or throws a value without status.
\<close>

theorem fallback_returns_first_success_witness:
  "list_all (not_found (demo_env llm_second_ok disk_ok) (prompt demo_ocrText)) [''gemini-1.5-flash-8b'']
   \<and> try_generate (demo_env llm_second_ok disk_ok) (prompt demo_ocrText) ''gemini-1.5-flash-8b-latest''
       = Inr demo_reply
   \<and> generate_with_fallback (demo_env llm_second_ok disk_ok) (prompt demo_ocrText) defaults
       = (Broke demo_reply ''gemini-1.5-flash-8b-latest'',
          [LlmAttempt ''gemini-1.5-flash-8b'', LlmAttempt ''gemini-1.5-flash-8b-latest''])"
proof -
  have h2: "try_generate (demo_env llm_second_ok disk_ok) (prompt demo_ocrText)
      ''gemini-1.5-flash-8b-latest'' = Inr demo_reply"
    by (simp add: demo_try_generate llm_second_ok_def)
  show ?thesis
    using demo_first_not_found(1) [of disk_ok "prompt demo_ocrText"] h2
      fallback_returns_first_success [OF demo_first_not_found(1) h2,
        of "[''gemini-1.5-pro'', ''gemini-1.5-pro-latest'']" "[]"]
    by (simp add: defaults_def)
qed

theorem rate_limit_stops_fallback_witness:
  "list_all (not_found (demo_env llm_second_rate_limited disk_ok) (prompt demo_ocrText))
     [''gemini-1.5-flash-8b'']
   \<and> try_generate (demo_env llm_second_rate_limited disk_ok) (prompt demo_ocrText)
       ''gemini-1.5-flash-8b-latest'' = Inl (http_error 429 ''Too Many Requests'')
   \<and> status (http_error 429 ''Too Many Requests'') = Some 429
   \<and> generate_with_fallback (demo_env llm_second_rate_limited disk_ok) (prompt demo_ocrText) defaults
       = (Returned (Response 429 (Json (JObj
            [(js ''error'', JStr (js ''LLM call failed'')),
             (js ''status'', JNum 429),
             (js ''statusText'', JStr (js ''Too Many Requests'')),
             (js ''hint'', JStr (js ''Rate limit exceeded. Please retry after some time.''))]))),
          [LlmAttempt ''gemini-1.5-flash-8b'', LlmAttempt ''gemini-1.5-flash-8b-latest''])"
proof -
  have h2: "try_generate (demo_env llm_second_rate_limited disk_ok) (prompt demo_ocrText)
      ''gemini-1.5-flash-8b-latest'' = Inl (http_error 429 ''Too Many Requests'')"
    by (simp add: demo_try_generate llm_second_rate_limited_def)
  have h3: "status (http_error 429 ''Too Many Requests'') = Some 429"
    by (simp add: http_error_def)
  have t: "effective_statusText (http_error 429 ''Too Many Requests'') = js ''Too Many Requests''"
    by (simp add: effective_statusText_def http_error_def js_def)
  show ?thesis
    using demo_first_not_found(2) [of disk_ok "prompt demo_ocrText"] h2 h3
      rate_limit_stops_fallback [OF demo_first_not_found(2) h2 h3,
        of "[''gemini-1.5-pro'', ''gemini-1.5-pro-latest'']"]
    by (simp add: defaults_def t)
qed

theorem missing_status_is_fatal_witness:
  "list_all (not_found (demo_env llm_second_no_status disk_ok) (prompt demo_ocrText))
     [''gemini-1.5-flash-8b'']
   \<and> try_generate (demo_env llm_second_no_status disk_ok) (prompt demo_ocrText)
       ''gemini-1.5-flash-8b-latest'' = Inl \<lparr> status = None, statusText = None \<rparr>
   \<and> status \<lparr> status = None, statusText = None \<rparr> = None
   \<and> generate_with_fallback (demo_env llm_second_no_status disk_ok) (prompt demo_ocrText) defaults
       = (Returned (Response 502 (Json (JObj
            [(js ''error'', JStr (js ''LLM call failed'')),
             (js ''status'', JNum 502),
             (js ''statusText'', JStr (js ''LLM error'')),
             (js ''hint'', JStr (js ''Check API key and model name or permissions in AI Studio.''))]))),
          [LlmAttempt ''gemini-1.5-flash-8b'', LlmAttempt ''gemini-1.5-flash-8b-latest''])"
proof -
  have h2: "try_generate (demo_env llm_second_no_status disk_ok) (prompt demo_ocrText)
      ''gemini-1.5-flash-8b-latest'' = Inl \<lparr> status = None, statusText = None \<rparr>"
    by (simp add: demo_try_generate llm_second_no_status_def)
  have h3: "status \<lparr> status = None, statusText = None \<rparr> = None"
    by simp
  have t: "effective_statusText \<lparr> status = None, statusText = None \<rparr> = js ''LLM error''"
    by (simp add: effective_statusText_def)
  show ?thesis
    using demo_first_not_found(3) [of disk_ok "prompt demo_ocrText"] h2 h3
      missing_status_is_fatal [OF demo_first_not_found(3) h2 h3,
        of "[''gemini-1.5-pro'', ''gemini-1.5-pro-latest'']"]
    by (simp add: defaults_def t)
qed

text \<open>
  Exhaustion (C5): every candidate fails with a 404.
\<close>

theorem exhausted_candidates_no_accessible_model_witness:
  "cached_result (demo_env llm_all_not_found disk_ok) Map.empty
       (jsonPath (demo_env llm_all_not_found disk_ok) demo_image) = None
   \<and> sharp_threshold (demo_env llm_all_not_found disk_ok) demo_image = Some demo_image
   \<and> tesseract_recognize (demo_env llm_all_not_found disk_ok) demo_image = Some demo_ocrText
   \<and> init_model (demo_env llm_all_not_found disk_ok) (modelCandidates (demo_env llm_all_not_found disk_ok))
       = (Some ''gemini-1.5-flash-8b'', [ModelInit ''gemini-1.5-flash-8b''])
   \<and> list_all (not_found (demo_env llm_all_not_found disk_ok) (prompt demo_ocrText))
       (modelCandidates (demo_env llm_all_not_found disk_ok))
   \<and> generate_with_fallback (demo_env llm_all_not_found disk_ok) (prompt demo_ocrText)
       (modelCandidates (demo_env llm_all_not_found disk_ok))
       = (Exhausted, map LlmAttempt defaults)
   \<and> response_of (extract_amounts (demo_env llm_all_not_found disk_ok) Map.empty (Some demo_image))
       = no_accessible_model"
proof -
  have nf: "list_all (not_found (demo_env llm_all_not_found disk_ok) (prompt demo_ocrText))
       (modelCandidates (demo_env llm_all_not_found disk_ok))"
    using demo_first_not_found(4) by (simp add: demo_candidates)
  show ?thesis
    using demo_reaches_loop [of llm_all_not_found disk_ok] nf
      exhausted_candidates_no_accessible_model [OF demo_reaches_loop nf]
    by (simp add: demo_candidates no_accessible_model_def)
qed

text \<open>
  The cache (C6): a successful run followed by a second call on the store it left.
\<close>

theorem cache_idempotence_witness:
  "response_of (extract_amounts (demo_env llm_ok disk_ok) Map.empty (Some demo_image))
     = Response 200 (Json demo_result)
   \<and> JSON_parse (demo_env llm_ok disk_ok)
        (utf8_decode (demo_env llm_ok disk_ok)
          (utf8_encode (demo_env llm_ok disk_ok)
            (JSON_stringify (demo_env llm_ok disk_ok) demo_result))) = Some demo_result
   \<and> response_of (second_call (demo_env llm_ok disk_ok) Map.empty (Some demo_image))
       = Response 200 (Json demo_result)
   \<and> events_of (second_call (demo_env llm_ok disk_ok) Map.empty (Some demo_image))
       = [FsRead ''uploads/0f4636c78f65d3639ece5a064b5ae753e3408614a14fb18ab4d7540d2c248543.json'']"
proof -
  have ok: "response_of (extract_amounts (demo_env llm_ok disk_ok) Map.empty (Some demo_image))
      = Response 200 (Json demo_result)"
    by (simp add: demo_run_ok response_of_def save_and_respond_def writeFile_def demo_disk)
  have roundtrip: "JSON_parse (demo_env llm_ok disk_ok)
        (utf8_decode (demo_env llm_ok disk_ok)
          (utf8_encode (demo_env llm_ok disk_ok)
            (JSON_stringify (demo_env llm_ok disk_ok) demo_result))) = Some demo_result"
    using demo_texts by (simp add: demo_env_def demo_stringify_def demo_parse_def)
  show ?thesis
    using ok roundtrip cache_idempotence [OF ok roundtrip]
    by (simp add: response_of_def events_of_def demo_paths)
qed

text \<open>
  Persisting (C2 and C9 as amended): with the second write failing the answer is the 500 of
  line 221; the run that writes is one whose reply parsed.
\<close>

theorem write_failure_fails_request_witness:
  "cached_result (demo_env llm_ok disk_image_only) Map.empty
       (jsonPath (demo_env llm_ok disk_image_only) demo_image) = None
   \<and> sharp_threshold (demo_env llm_ok disk_image_only) demo_image = Some demo_image
   \<and> tesseract_recognize (demo_env llm_ok disk_image_only) demo_image = Some demo_ocrText
   \<and> init_model (demo_env llm_ok disk_image_only) (modelCandidates (demo_env llm_ok disk_image_only))
       = (Some ''gemini-1.5-flash-8b'', [ModelInit ''gemini-1.5-flash-8b''])
   \<and> generate_with_fallback (demo_env llm_ok disk_image_only) (prompt demo_ocrText)
         (modelCandidates (demo_env llm_ok disk_image_only))
       = (Broke demo_reply ''gemini-1.5-flash-8b'', [LlmAttempt ''gemini-1.5-flash-8b''])
   \<and> demo_reply \<noteq> []
   \<and> JSON_parse (demo_env llm_ok disk_image_only) (clean_response demo_reply) = Some demo_result
   \<and> writeFile_ok (demo_env llm_ok disk_image_only)
         (imagePath (demo_env llm_ok disk_image_only) demo_image)
   \<and> \<not> writeFile_ok (demo_env llm_ok disk_image_only)
         (jsonPath (demo_env llm_ok disk_image_only) demo_image)
   \<and> response_of (extract_amounts (demo_env llm_ok disk_image_only) Map.empty (Some demo_image))
       = Response 500 (Send ''Failed to process image.'')
   \<and> store_of (extract_amounts (demo_env llm_ok disk_image_only) Map.empty (Some demo_image))
       = [imagePath (demo_env llm_ok disk_image_only) demo_image \<mapsto> demo_image]"
proof -
  have w: "\<not> writeFile_ok (demo_env llm_ok disk_image_only)
            (imagePath (demo_env llm_ok disk_image_only) demo_image)
        \<or> \<not> writeFile_ok (demo_env llm_ok disk_image_only)
            (jsonPath (demo_env llm_ok disk_image_only) demo_image)"
    using demo_disk(4) by blast
  show ?thesis
    using demo_disk(3,4) [of llm_ok] demo_replies_nonempty(1)
      demo_parsed(1) [of llm_ok disk_image_only]
      demo_reaches_loop [of llm_ok disk_image_only]
      demo_loop_ok(1) [of disk_image_only "prompt demo_ocrText"]
      write_failure_fails_request [OF demo_reaches_loop demo_loop_ok(1) demo_replies_nonempty(1)
        demo_parsed(1) w]
    by simp
qed

theorem writes_only_after_parse_witness:
  "FsWrite (imagePath (demo_env llm_ok disk_ok) demo_image)
     \<in> set (events_of (extract_amounts (demo_env llm_ok disk_ok) Map.empty (Some demo_image)))
   \<and> (\<exists>img ocrText model evs1 llmResponse name evs2 extractedData.
         cached_result (demo_env llm_ok disk_ok) Map.empty
             (jsonPath (demo_env llm_ok disk_ok) demo_image) = None
         \<and> sharp_threshold (demo_env llm_ok disk_ok) demo_image = Some img
         \<and> tesseract_recognize (demo_env llm_ok disk_ok) img = Some ocrText
         \<and> init_model (demo_env llm_ok disk_ok) (modelCandidates (demo_env llm_ok disk_ok))
             = (Some model, evs1)
         \<and> generate_with_fallback (demo_env llm_ok disk_ok) (prompt ocrText)
               (modelCandidates (demo_env llm_ok disk_ok))
             = (Broke llmResponse name, evs2)
         \<and> llmResponse \<noteq> []
         \<and> JSON_parse (demo_env llm_ok disk_ok) (clean_response llmResponse) = Some extractedData)"
proof -
  have w: "FsWrite (imagePath (demo_env llm_ok disk_ok) demo_image)
      \<in> set (events_of (extract_amounts (demo_env llm_ok disk_ok) Map.empty (Some demo_image)))"
    by (simp add: demo_run_ok events_of_def save_and_respond_def writeFile_def demo_disk)
  then have h: "store_of (extract_amounts (demo_env llm_ok disk_ok) Map.empty (Some demo_image))
        \<noteq> Map.empty
      \<or> (\<exists>path. FsWrite path
          \<in> set (events_of (extract_amounts (demo_env llm_ok disk_ok) Map.empty (Some demo_image))))"
    by blast
  show ?thesis
    using w writes_only_after_parse [OF h] by blast
qed

subsection \<open>Runs on which the specification and the handler differ\<close>

text \<open>
  C4 as stated requires each candidate to be attempted at most once. Here
  \<^verbatim>\<open>GEMINI_MODEL\<close> is \<^verbatim>\<open>gemini-1.5-pro\<close>, which is also the third default, and every
  call fails with a 404: the list of line 120 has that identifier twice, and the loop
  attempts it twice.
\<close>

theorem duplicate_candidate_attempted_twice:
  "modelCandidates override_env =
     [''gemini-1.5-pro'', ''gemini-1.5-flash-8b'', ''gemini-1.5-flash-8b-latest'',
      ''gemini-1.5-pro'', ''gemini-1.5-pro-latest'']
   \<and> generate_with_fallback override_env (prompt demo_ocrText) (modelCandidates override_env) =
       (Exhausted,
        [LlmAttempt ''gemini-1.5-pro'', LlmAttempt ''gemini-1.5-flash-8b'',
         LlmAttempt ''gemini-1.5-flash-8b-latest'', LlmAttempt ''gemini-1.5-pro'',
         LlmAttempt ''gemini-1.5-pro-latest''])
   \<and> count_list
         (attempts (snd (generate_with_fallback override_env (prompt demo_ocrText)
                           (modelCandidates override_env))))
         ''gemini-1.5-pro'' = 2"
proof -
  have cands: "modelCandidates override_env =
     [''gemini-1.5-pro'', ''gemini-1.5-flash-8b'', ''gemini-1.5-flash-8b-latest'',
      ''gemini-1.5-pro'', ''gemini-1.5-pro-latest'']"
    by (simp add: override_env_def modelCandidates_def demo_env_def defaults_def)
  have call: "try_generate override_env p name = Inl (http_error 404 ''Not Found'')" for p name
    by (simp add: override_env_def try_generate_def demo_env_def llm_all_not_found_def)
  have st: "effective_status (http_error 404 ''Not Found'') = 404"
    by (simp add: effective_status_def http_error_def)
  show ?thesis
    by (simp add: cands call st)
qed

text \<open>
  C1. The specification requires a reply with an unrecognized kind to be rejected with the
  invalid-format response, and the docstring of the handler documents the body of a 200
  response with \<^verbatim>\<open>type\<close> one of \<^verbatim>\<open>total_bill\<close>, \<^verbatim>\<open>paid\<close>, \<^verbatim>\<open>due\<close>. The handler
  does neither on the run below: the reply has one entry of type \<^verbatim>\<open>tax\<close>, it is not a
  structured result of the specification nor a body the docstring allows, it parses, and
  the handler answers 200 with it.
\<close>

theorem unrecognized_kind_accepted:
  "has_unrecognized_kind tax_result
   \<and> \<not> spec_structured_result tax_result
   \<and> \<not> documented_200_body tax_result
   \<and> generate_with_fallback (demo_env llm_tax disk_ok) (prompt demo_ocrText)
         (modelCandidates (demo_env llm_tax disk_ok))
       = (Broke tax_json_text ''gemini-1.5-flash-8b'', [LlmAttempt ''gemini-1.5-flash-8b''])
   \<and> JSON_parse (demo_env llm_tax disk_ok) (clean_response tax_json_text) = Some tax_result
   \<and> response_of (extract_amounts (demo_env llm_tax disk_ok) Map.empty (Some demo_image))
       = Response 200 (Json tax_result)
   \<and> response_of (extract_amounts (demo_env llm_tax disk_ok) Map.empty (Some demo_image))
       \<noteq> Response 500 (Send ''Error: The AI returned an invalid format.'')"
proof -
  have "has_unrecognized_kind tax_result \<and> \<not> spec_structured_result tax_result
      \<and> \<not> documented_200_body tax_result"
    by code_simp
  then show ?thesis
    using demo_loop_ok(2) [of disk_ok "prompt demo_ocrText"] demo_parsed(2) [of llm_tax disk_ok]
    by (simp add: demo_run_tax response_of_def save_and_respond_def writeFile_def demo_disk)
qed

text \<open>
  C2 as stated requires the result to be returned when persisting fails. Here every write
  fails, the reply has been parsed, and the handler answers 500.
\<close>

theorem write_failure_loses_result:
  "JSON_parse (demo_env llm_ok disk_failing) (clean_response demo_reply) = Some demo_result
   \<and> response_of (extract_amounts (demo_env llm_ok disk_failing) Map.empty (Some demo_image))
       = Response 500 (Send ''Failed to process image.'')
   \<and> response_of (extract_amounts (demo_env llm_ok disk_failing) Map.empty (Some demo_image))
       \<noteq> Response 200 (Json demo_result)"
  using demo_parsed(1) [of llm_ok disk_failing]
  by (simp add: demo_run_ok response_of_def save_and_respond_def writeFile_def demo_disk
        failed_to_process_def)

text \<open>
  C7 as stated requires an upload of zero bytes to be rejected as missing input with no
  storage call. Here the file is present with an empty buffer: the handler looks the digest
  up in the store, hands the buffer to sharp, and answers 500 when sharp throws.
\<close>

theorem empty_file_not_rejected:
  "response_of (extract_amounts (demo_env llm_ok disk_ok) Map.empty (Some []))
     = Response 500 (Send ''Failed to process image.'')
   \<and> response_of (extract_amounts (demo_env llm_ok disk_ok) Map.empty (Some []))
       \<noteq> Response 400 (Send ''No file uploaded.'')
   \<and> events_of (extract_amounts (demo_env llm_ok disk_ok) Map.empty (Some []))
       = [FsRead ''uploads/e3b0c44298fc1c149afbf4c8996fb92427ae41e4649b934ca495991b7852b855.json'',
          Sharp]"
proof -
  have "cached_result (demo_env llm_ok disk_ok) Map.empty (jsonPath (demo_env llm_ok disk_ok) []) = None"
    by (simp add: cached_result_def readFile_def)
  moreover have "sharp_threshold (demo_env llm_ok disk_ok) [] = None"
    by (simp add: demo_env_def)
  ultimately show ?thesis
    by (simp add: extract_amounts_def process_new_image_def response_of_def events_of_def
          failed_to_process_def demo_paths)
qed

text \<open>
  C9 as stated requires the store to be unchanged on every error path. Here the write of the
  image succeeds and the write of the result fails: the handler answers 500 and the image
  stays in the store.
\<close>

theorem failed_json_write_leaves_image:
  "response_of (extract_amounts (demo_env llm_ok disk_image_only) Map.empty (Some demo_image))
     = Response 500 (Send ''Failed to process image.'')
   \<and> store_of (extract_amounts (demo_env llm_ok disk_image_only) Map.empty (Some demo_image))
        ''uploads/0f4636c78f65d3639ece5a064b5ae753e3408614a14fb18ab4d7540d2c248543.png''
       = Some demo_image
   \<and> store_of (extract_amounts (demo_env llm_ok disk_image_only) Map.empty (Some demo_image))
       \<noteq> Map.empty"
proof -
  have a: "response_of (extract_amounts (demo_env llm_ok disk_image_only) Map.empty (Some demo_image))
     = Response 500 (Send ''Failed to process image.'')"
    by (simp add: demo_run_ok response_of_def save_and_respond_def writeFile_def demo_disk
          failed_to_process_def)
  have b: "store_of (extract_amounts (demo_env llm_ok disk_image_only) Map.empty (Some demo_image))
        ''uploads/0f4636c78f65d3639ece5a064b5ae753e3408614a14fb18ab4d7540d2c248543.png''
       = Some demo_image"
    by (simp add: demo_run_ok store_of_def save_and_respond_def writeFile_def demo_disk)
       (simp add: demo_paths)
  from b have "store_of (extract_amounts (demo_env llm_ok disk_image_only) Map.empty (Some demo_image))
       \<noteq> Map.empty"
    by (metis option.distinct(1))
  with a b show ?thesis
    by simp
qed

end
